theory Spec2Isabelle
  imports Main "HOL-Library.Sublist"
begin

section \<open>Python values, strings and failures\<close>

text \<open>
  The configuration dictionary \<open>proj_data\<close> of \<open>ford.initialize\<close> holds values of several
  Python types at once: \<open>None\<close>, booleans, integers, strings, lists of strings and (for
  \<open>extra_filetypes\<close>) a dictionary whose entries are strings or pairs of strings.
  A Python string is modelled as a \<open>string\<close> whose characters are the code points below 256.
\<close>

datatype pyval =
    PNone
  | PBool bool
  | PInt int
  | PStr string
  | PList "string list"
  | PTuple string string
  | PDict "(string \<times> pyval) list"

text \<open>
  A formatted message (an f-string or a \<open>str.format\<close> call) is kept as the sequence of its
  pieces: literal text, a string substituted as it is, and a list substituted through its
  \<open>repr\<close>.
\<close>

datatype fragment = Lit string | Str string | Repr "string list"

type_synonym message = "fragment list"

datatype error =
    ValueError message
  | IndexError
  | KeyError string
  | TypeError string
  | AttributeError string
  | Uncaught string
  | SystemExit nat

subsection \<open>String methods\<close>

definition py_isspace :: "char \<Rightarrow> bool" where
  "py_isspace c = (let n = (of_char c :: nat) in
     (9 \<le> n \<and> n \<le> 13) \<or> (28 \<le> n \<and> n \<le> 32) \<or> n = 133 \<or> n = 160)"

definition py_lower_char :: "char \<Rightarrow> char" where
  "py_lower_char c = (let n = (of_char c :: nat) in
     if (65 \<le> n \<and> n \<le> 90) \<or> (192 \<le> n \<and> n \<le> 222 \<and> n \<noteq> 215)
     then char_of (n + 32) else c)"

definition py_lower :: "string \<Rightarrow> string" where
  "py_lower s = map py_lower_char s"

definition py_strip :: "string \<Rightarrow> string" where
  "py_strip s = rev (dropWhile py_isspace (rev (dropWhile py_isspace s)))"

text \<open>\<open>s.split()\<close>: the maximal runs of non-whitespace characters, in order.\<close>

fun split_ws :: "string \<Rightarrow> string \<Rightarrow> string list" where
  "split_ws cur [] = (if cur = [] then [] else [cur])"
| "split_ws cur (c # cs) =
     (if py_isspace c then (if cur = [] then split_ws [] cs else cur # split_ws [] cs)
      else split_ws (cur @ [c]) cs)"

definition py_split :: "string \<Rightarrow> string list" where
  "py_split s = split_ws [] s"

text \<open>\<open>s.split(sep)\<close> for a one-character separator: empty pieces are kept.\<close>

fun split_sep :: "char \<Rightarrow> string \<Rightarrow> string list" where
  "split_sep sep [] = [[]]"
| "split_sep sep (c # cs) =
     (if c = sep then [] # split_sep sep cs
      else (case split_sep sep cs of [] \<Rightarrow> [[c]] | w # ws \<Rightarrow> (c # w) # ws))"

text \<open>\<open>sep.join(xs)\<close>.\<close>

fun py_join :: "string \<Rightarrow> string list \<Rightarrow> string" where
  "py_join sep [] = []"
| "py_join sep [x] = x"
| "py_join sep (x # y # ys) = x @ sep @ py_join sep (y # ys)"

text \<open>The apostrophe, which a string literal cannot end or begin with.\<close>

definition apos :: string where
  "apos = [CHR 0x27]"

section \<open>Boolean coercion\<close>

text \<open>
  Modelled from the spec: \<open>ford.utils.str_to_bool\<close> is not part of the sources at hand.
  The spec says that the tokens "true" and "false" are recognised, in any letter case, and
  that every other token fails. \<open>None\<close> stands for the \<open>ValueError\<close> it raises.
\<close>

definition str_to_bool :: "string \<Rightarrow> bool option" where
  "str_to_bool text =
     (if py_lower text = ''true'' then Some True
      else if py_lower text = ''false'' then Some False
      else None)"

text \<open>
  \<open>convert_to_bool(name, option)\<close>, with the helper it calls as a parameter. The test
  \<open>len(option) > 1\<close> lets the empty list through, and \<open>option[0]\<close> then raises
  \<open>IndexError\<close>, which the \<open>except ValueError\<close> clause does not catch.
\<close>

definition convert_to_bool ::
  "(string \<Rightarrow> bool option) \<Rightarrow> string \<Rightarrow> string list \<Rightarrow> error + bool" where
  "convert_to_bool to_bool name option =
     (if length option > 1 then
        Inl (ValueError [Lit (''Could not convert option '' @ apos), Str name,
                         Lit (apos @ '' to bool: expected a single value but got a list (''),
                         Repr option, Lit '')''])
      else (case option of
              [] \<Rightarrow> Inl IndexError
            | x # _ \<Rightarrow>
                (case to_bool x of
                   Some b \<Rightarrow> Inr b
                 | None \<Rightarrow>
                     Inl (ValueError [Lit (''Could not convert option '' @ apos), Str name,
                                      Lit (apos @ '' to bool: expected 'true'/'false', got: ''),
                                      Str x]))))"

section \<open>The schema of defaults and the merge loop\<close>

type_synonym config = "string \<rightharpoonup> pyval"

text \<open>
  The \<open>defaults\<close> dictionary of \<open>initialize\<close>, in source order. Two entries are computed
  when the program starts: \<open>year\<close> is \<open>date.today().year\<close> and \<open>parallel\<close> is the CPU count
  as a string.
\<close>

definition defaults :: "int \<Rightarrow> string \<Rightarrow> (string \<times> pyval) list" where
  "defaults year ncpus =
     [(''css'', PNone),
      (''author'', PNone),
      (''author_description'', PNone),
      (''author_pic'', PNone),
      (''summary'', PNone),
      (''github'', PNone),
      (''gitlab'', PNone),
      (''bitbucket'', PNone),
      (''facebook'', PNone),
      (''twitter'', PNone),
      (''google_plus'', PNone),
      (''linkedin'', PNone),
      (''email'', PNone),
      (''website'', PNone),
      (''project_github'', PNone),
      (''project_gitlab'', PNone),
      (''project_bitbucket'', PNone),
      (''project_website'', PNone),
      (''project_download'', PNone),
      (''project_sourceforge'', PNone),
      (''version'', PNone),
      (''media_dir'', PNone),
      (''page_dir'', PNone),
      (''privacy_policy_url'', PNone),
      (''terms_of_service_url'', PNone),
      (''graph_dir'', PNone),
      (''gitter_sidecar'', PNone),
      (''mathjax_config'', PNone),
      (''revision'', PNone),
      (''src_dir'', PList [''./src'']),
      (''extensions'', PList [''f90'', ''f95'', ''f03'', ''f08'', ''f15'']),
      (''fpp_extensions'', PList [''F90'', ''F95'', ''F03'', ''F08'', ''F15'', ''F'', ''FOR'']),
      (''fixed_extensions'', PList [''f'', ''for'', ''F'', ''FOR'']),
      (''output_dir'', PStr ''./doc''),
      (''project'', PStr ''Fortran Program''),
      (''project_url'', PStr ''''),
      (''display'', PList [''public'', ''protected'']),
      (''hide_undoc'', PBool False),
      (''year'', PInt year),
      (''exclude'', PList []),
      (''exclude_dir'', PList []),
      (''copy_subdir'', PList []),
      (''external'', PList []),
      (''externalize'', PBool False),
      (''docmark'', PStr ''!''),
      (''docmark_alt'', PStr ''*''),
      (''predocmark'', PStr ''>''),
      (''predocmark_alt'', PStr ''|''),
      (''alias'', PList []),
      (''favicon'', PStr ''default-icon''),
      (''extra_vartypes'', PList []),
      (''incl_src'', PBool True),
      (''source'', PBool False),
      (''macro'', PList []),
      (''include'', PList []),
      (''preprocess'', PBool True),
      (''preprocessor'', PStr ''''),
      (''proc_internals'', PBool False),
      (''warn'', PBool False),
      (''force'', PBool False),
      (''quiet'', PBool False),
      (''search'', PBool True),
      (''lower'', PBool False),
      (''sort'', PStr ''src''),
      (''extra_mods'', PList []),
      (''dbg'', PBool True),
      (''graph'', PBool False),
      (''graph_maxdepth'', PStr ''10000''),
      (''graph_maxnodes'', PStr ''1000000000''),
      (''license'', PStr ''''),
      (''doc_license'', PStr ''''),
      (''extra_filetypes'', PList []),
      (''creation_date'', PStr ''%Y-%m-%dT%H:%M:%S.%f%z''),
      (''print_creation_date'', PBool False),
      (''coloured_edges'', PBool False),
      (''parallel'', PStr ncpus),
      (''fixed_length_limit'', PBool True),
      (''max_frontpage_items'', PInt 10),
      (''encoding'', PStr ''utf-8'')]"

text \<open>The document metadata \<open>md.Meta\<close>: each key holds a list of strings.\<close>

definition of_meta :: "(string \<rightharpoonup> string list) \<Rightarrow> config" where
  "of_meta meta = (\<lambda>k. map_option PList (meta k))"

text \<open>
  \<open>hasattr(args, option) and getattr(args, option) is not None\<close>: the parsed arguments
  are a map from attribute names to values, and an attribute that was not given on the
  command line is \<open>None\<close>.
\<close>

definition supplied :: "config \<Rightarrow> string \<Rightarrow> pyval option" where
  "supplied args option =
     (case args option of
        None \<Rightarrow> None
      | Some v \<Rightarrow> (if v = PNone then None else Some v))"

fun is_bool :: "pyval \<Rightarrow> bool" where
  "is_bool (PBool b) = True"
| "is_bool v = False"

fun is_list :: "pyval \<Rightarrow> bool" where
  "is_list (PList xs) = True"
| "is_list v = False"

text \<open>
  What \<open>len\<close>, indexing and \<open>join\<close> see of a value: a list gives its elements, a string
  its characters, a tuple its two parts, a dictionary its keys; the other values are not
  sequences and raise \<open>TypeError\<close>. Where \<open>initialize\<close> uses it the value is a list: the
  metadata holds lists, and \<open>argparse\<close> gives a list for every option that is one.
\<close>

fun as_sequence :: "pyval \<Rightarrow> error + string list" where
  "as_sequence (PList xs) = Inr xs"
| "as_sequence (PStr s) = Inr (map (\<lambda>c. [c]) s)"
| "as_sequence (PTuple a b) = Inr [a, b]"
| "as_sequence (PDict kvs) = Inr (map fst kvs)"
| "as_sequence v = Inl (TypeError ''not a sequence'')"

text \<open>One round of the loop \<open>for option, default in defaults.items()\<close>.\<close>

definition merge_option ::
  "(string \<Rightarrow> bool option) \<Rightarrow> config \<Rightarrow> string \<times> pyval \<Rightarrow> config \<Rightarrow> error + config" where
  "merge_option to_bool args entry proj_data =
     (case entry of (option, dflt) \<Rightarrow>
        (case supplied args option of
           Some v \<Rightarrow> Inr (proj_data(option \<mapsto> v))
         | None \<Rightarrow>
             (case proj_data option of
                Some cur \<Rightarrow>
                  (if is_bool dflt then
                     (case as_sequence cur of
                        Inl e \<Rightarrow> Inl e
                      | Inr xs \<Rightarrow>
                          (case convert_to_bool to_bool option xs of
                             Inl e \<Rightarrow> Inl e
                           | Inr b \<Rightarrow> Inr (proj_data(option \<mapsto> PBool b))))
                   else if \<not> is_list dflt then
                     (case as_sequence cur of
                        Inl e \<Rightarrow> Inl e
                      | Inr xs \<Rightarrow> Inr (proj_data(option \<mapsto> PStr (py_join [CHR 0x0A] xs))))
                   else Inr proj_data)
              | None \<Rightarrow> Inr (proj_data(option \<mapsto> dflt)))))"

fun merge_loop ::
  "(string \<Rightarrow> bool option) \<Rightarrow> config \<Rightarrow> (string \<times> pyval) list \<Rightarrow> config \<Rightarrow> error + config" where
  "merge_loop to_bool args [] proj_data = Inr proj_data"
| "merge_loop to_bool args (entry # rest) proj_data =
     (case merge_option to_bool args entry proj_data of
        Inl e \<Rightarrow> Inl e
      | Inr proj_data' \<Rightarrow> merge_loop to_bool args rest proj_data')"

section \<open>The environment of a run\<close>

text \<open>
  What \<open>initialize\<close> takes from outside the module. \<open>ford.utils.str_to_bool\<close> and
  \<open>ford.utils.split_path\<close> are helpers of the package that the sources at hand do not
  include; the rest are the operating system and the clock.
\<close>

datatype spawn_result = Exited int | OSError string | OtherException string

record environment =
  env_str_to_bool :: "string \<Rightarrow> bool option"
  env_split_path :: "string \<Rightarrow> string list"
  env_expandvars :: "string \<Rightarrow> string"
  env_expanduser :: "string \<Rightarrow> string"
  env_strftime :: "string \<Rightarrow> string"
  env_popen :: "string list \<Rightarrow> spawn_result"
  env_base_dir :: string
  env_year :: int
  env_ncpus :: string

section \<open>Path resolution\<close>

text \<open>
  \<open>os.path\<close> on a POSIX system. \<open>expandvars\<close> returns a path without \<open>$\<close> as it is and
  \<open>expanduser\<close> a path that does not start with \<open>~\<close>; what they substitute otherwise
  depends on the process environment and is left to \<open>env_expandvars\<close> and
  \<open>env_expanduser\<close>.
\<close>

definition expandvars :: "environment \<Rightarrow> string \<Rightarrow> string" where
  "expandvars env path = (if CHR ''$'' \<notin> set path then path else env_expandvars env path)"

definition expanduser :: "environment \<Rightarrow> string \<Rightarrow> string" where
  "expanduser env path = (if \<not> prefix ''~'' path then path else env_expanduser env path)"

text \<open>\<open>os.path.join(a, b)\<close>.\<close>

definition path_join :: "string \<Rightarrow> string \<Rightarrow> string" where
  "path_join a b =
     (if prefix ''/'' b then b
      else if a = [] \<or> last a = CHR ''/'' then a @ b
      else a @ ''/'' @ b)"

text \<open>
  The loop of \<open>os.path.normpath\<close> over the components: empty and \<open>.\<close> components are
  dropped, a \<open>..\<close> removes the component before it unless there is none to remove.
\<close>

fun norm_comps :: "bool \<Rightarrow> string list \<Rightarrow> string list \<Rightarrow> string list" where
  "norm_comps initial_slashes new_comps [] = new_comps"
| "norm_comps initial_slashes new_comps (cmpt # comps) =
     (if cmpt = [] \<or> cmpt = ''.'' then norm_comps initial_slashes new_comps comps
      else if cmpt \<noteq> ''..'' \<or> (\<not> initial_slashes \<and> new_comps = [])
              \<or> (new_comps \<noteq> [] \<and> last new_comps = ''..'')
      then norm_comps initial_slashes (new_comps @ [cmpt]) comps
      else if new_comps \<noteq> [] then norm_comps initial_slashes (butlast new_comps) comps
      else norm_comps initial_slashes new_comps comps)"

definition initial_slashes :: "string \<Rightarrow> nat" where
  "initial_slashes path =
     (if prefix ''/'' path then (if prefix ''//'' path \<and> \<not> prefix ''///'' path then 2 else 1)
      else 0)"

definition normpath :: "string \<Rightarrow> string" where
  "normpath path =
     (if path = [] then ''.''
      else (let n = initial_slashes path;
                comps = norm_comps (n \<noteq> 0) [] (split_sep CHR ''/'' path);
                path' = replicate n CHR ''/'' @ py_join ''/'' comps
            in if path' = [] then ''.'' else path'))"

text \<open>
  \<open>os.path.normpath(os.path.join(base_dir, os.path.expanduser(os.path.expandvars(p))))\<close>,
  the expression applied to every path option.
\<close>

definition resolve_path :: "environment \<Rightarrow> string \<Rightarrow> string" where
  "resolve_path env p =
     normpath (path_join (env_base_dir env) (expanduser env (expandvars env p)))"

definition and_then :: "error + 'a \<Rightarrow> ('a \<Rightarrow> error + 'b) \<Rightarrow> error + 'b" where
  "and_then r f = (case r of Inl e \<Rightarrow> Inl e | Inr x \<Rightarrow> f x)"

text \<open>\<open>proj_data[key]\<close>.\<close>

definition item :: "config \<Rightarrow> string \<Rightarrow> error + pyval" where
  "item proj_data key = (case proj_data key of None \<Rightarrow> Inl (KeyError key) | Some v \<Rightarrow> Inr v)"

text \<open>The body of \<open>for var in ["src_dir", "exclude_dir", "include"]\<close>.\<close>

definition resolve_list_option :: "environment \<Rightarrow> string \<Rightarrow> config \<Rightarrow> error + config" where
  "resolve_list_option env var proj_data =
     (case proj_data var of
        None \<Rightarrow> Inr proj_data
      | Some v \<Rightarrow>
          and_then (as_sequence v)
            (\<lambda>ps. Inr (proj_data(var \<mapsto> PList (map (resolve_path env) ps)))))"

text \<open>The body of the loop over \<open>page_dir\<close>, \<open>output_dir\<close> and the other single paths.\<close>

definition resolve_scalar_option :: "environment \<Rightarrow> string \<Rightarrow> config \<Rightarrow> error + config" where
  "resolve_scalar_option env var proj_data =
     and_then (item proj_data var)
       (\<lambda>v. case v of
          PNone \<Rightarrow> Inr proj_data
        | PStr p \<Rightarrow> Inr (proj_data(var \<mapsto> PStr (resolve_path env p)))
        | _ \<Rightarrow> Inl (TypeError ''expected str, bytes or os.PathLike object''))"

fun for_each :: "('k \<Rightarrow> 's \<Rightarrow> error + 's) \<Rightarrow> 'k list \<Rightarrow> 's \<Rightarrow> error + 's" where
  "for_each body [] st = Inr st"
| "for_each body (k # ks) st = and_then (body k st) (for_each body ks)"

definition resolve_favicon :: "environment \<Rightarrow> config \<Rightarrow> error + config" where
  "resolve_favicon env proj_data =
     and_then (item proj_data ''favicon'')
       (\<lambda>v. case v of
          PStr p \<Rightarrow>
            (if py_strip p \<noteq> ''default-icon''
             then Inr (proj_data(''favicon'' \<mapsto> PStr (resolve_path env p)))
             else Inr proj_data)
        | _ \<Rightarrow> Inl (AttributeError ''strip''))"

definition resolve_paths :: "environment \<Rightarrow> config \<Rightarrow> error + config" where
  "resolve_paths env proj_data =
     and_then (for_each (resolve_list_option env) [''src_dir'', ''exclude_dir'', ''include'']
                 (proj_data(''base_dir'' \<mapsto> PStr (env_base_dir env))))
       (\<lambda>proj_data.
          and_then (for_each (resolve_scalar_option env)
                      [''page_dir'', ''output_dir'', ''graph_dir'', ''media_dir'', ''css'',
                       ''mathjax_config'']
                      proj_data)
            (resolve_favicon env))"

section \<open>Derived fields\<close>

text \<open>\<open>proj_data["display"] = [item.lower() for item in proj_data["display"]]\<close>.\<close>

definition lower_display :: "config \<Rightarrow> error + config" where
  "lower_display proj_data =
     and_then (item proj_data ''display'')
       (\<lambda>v. and_then (as_sequence v)
          (\<lambda>items. Inr (proj_data(''display'' \<mapsto> PList (map py_lower items)))))"

definition set_creation_date :: "environment \<Rightarrow> config \<Rightarrow> error + config" where
  "set_creation_date env proj_data =
     and_then (item proj_data ''creation_date'')
       (\<lambda>v. case v of
          PStr fmt \<Rightarrow> Inr (proj_data(''creation_date'' \<mapsto> PStr (env_strftime env fmt)))
        | _ \<Rightarrow> Inl (TypeError ''strftime() argument 1 must be str''))"

definition set_relative :: "config \<Rightarrow> error + config" where
  "set_relative proj_data =
     and_then (item proj_data ''project_url'')
       (\<lambda>v. Inr (proj_data(''relative'' \<mapsto> PBool (v = PStr []))))"

text \<open>
  \<open>extensions += [ext for ext in fpp_extensions if ext not in extensions]\<close>: the
  comprehension is evaluated against the list as it is before the extension.
\<close>

definition add_fpp_extensions :: "string list \<Rightarrow> string list \<Rightarrow> string list" where
  "add_fpp_extensions extensions fpp_extensions =
     extensions @ filter (\<lambda>ext. ext \<notin> set extensions) fpp_extensions"

definition extend_extensions :: "config \<Rightarrow> error + config" where
  "extend_extensions proj_data =
     and_then (item proj_data ''extensions'')
       (\<lambda>exts. and_then (item proj_data ''fpp_extensions'')
          (\<lambda>fpp. and_then (as_sequence fpp)
             (\<lambda>fpp_extensions. case exts of
                PList extensions \<Rightarrow>
                  Inr (proj_data(''extensions'' \<mapsto>
                         PList (add_fpp_extensions extensions fpp_extensions)))
              | _ \<Rightarrow> Inl (TypeError ''unsupported operand''))))"

text \<open>\<open>extdict[key] = value\<close> on a dictionary kept in insertion order.\<close>

fun dict_set :: "(string \<times> pyval) list \<Rightarrow> string \<Rightarrow> pyval \<Rightarrow> (string \<times> pyval) list" where
  "dict_set [] key v = [(key, v)]"
| "dict_set ((k, w) # kvs) key v =
     (if k = key then (k, v) # kvs else (k, w) # dict_set kvs key v)"

fun parse_filetypes :: "string list \<Rightarrow> (string \<times> pyval) list \<Rightarrow> (string \<times> pyval) list" where
  "parse_filetypes [] extdict = extdict"
| "parse_filetypes (ext # exts) extdict =
     (case py_split ext of
        a # b # c # _ \<Rightarrow> parse_filetypes exts (dict_set extdict a (PTuple b c))
      | [a, b] \<Rightarrow> parse_filetypes exts (dict_set extdict a (PStr b))
      | _ \<Rightarrow> parse_filetypes exts extdict)"

definition set_extra_filetypes :: "config \<Rightarrow> error + config" where
  "set_extra_filetypes proj_data =
     and_then (item proj_data ''extra_filetypes'')
       (\<lambda>v. and_then (as_sequence v)
          (\<lambda>exts. Inr (proj_data(''extra_filetypes'' \<mapsto> PDict (parse_filetypes exts [])))))"

definition derive_fields :: "environment \<Rightarrow> config \<Rightarrow> error + config" where
  "derive_fields env proj_data =
     and_then (lower_display proj_data)
       (\<lambda>proj_data. and_then (set_creation_date env proj_data)
          (\<lambda>proj_data. and_then (set_relative proj_data)
             (\<lambda>proj_data. and_then (extend_extensions proj_data) set_extra_filetypes)))"

section \<open>Validation\<close>

text \<open>
  The inner loop \<open>for directory in out_path\<close> with its \<open>else\<close> clause. The result is
  \<open>True\<close> when the loop runs to its end without \<open>break\<close>, which is when the \<open>else\<close>
  clause (the error) is executed.
\<close>

fun walk_out_path :: "string list \<Rightarrow> string list \<Rightarrow> bool" where
  "walk_out_path proj_path [] = True"
| "walk_out_path proj_path (directory # out_path) =
     (case proj_path of
        [] \<Rightarrow> False
      | first # _ \<Rightarrow>
          (if directory = first then walk_out_path (remove1 directory proj_path) out_path
           else False))"

text \<open>
  The outer loop \<open>for projdir in proj_data["src_dir"]\<close>: the first source directory
  for which the walk completes is reported.
\<close>

fun first_contained :: "(string \<Rightarrow> string list) \<Rightarrow> string list \<Rightarrow> string \<Rightarrow> string option" where
  "first_contained split [] output_dir = None"
| "first_contained split (projdir # rest) output_dir =
     (if walk_out_path (split projdir) (split output_dir) then Some projdir
      else first_contained split rest output_dir)"

text \<open>The line printed when a source directory lies in the output directory.\<close>

definition containment_error :: "string \<Rightarrow> string \<Rightarrow> message" where
  "containment_error projdir output_dir =
     [Lit ''Error: directory containing source-code '', Str projdir,
      Lit '' a subdirectory of output directory '', Str output_dir, Lit ''.'']"

text \<open>
  The containment check. \<open>Inr (Some m)\<close> is the diagnostic \<open>m\<close> printed before
  \<open>sys.exit(1)\<close>; \<open>Inr None\<close> lets the run continue. With no source directory the
  output directory is never looked at.
\<close>

definition check_src_dirs :: "environment \<Rightarrow> config \<Rightarrow> error + message option" where
  "check_src_dirs env proj_data =
     and_then (item proj_data ''src_dir'')
       (\<lambda>v. and_then (as_sequence v)
          (\<lambda>src_dirs. if src_dirs = [] then Inr None
             else and_then (item proj_data ''output_dir'')
               (\<lambda>out. case out of
                  PStr output_dir \<Rightarrow>
                    (case first_contained (env_split_path env) src_dirs output_dir of
                       None \<Rightarrow> Inr None
                     | Some projdir \<Rightarrow>
                         Inr (Some (containment_error projdir output_dir)))
                | _ \<Rightarrow> Inl (TypeError ''expected str, bytes or os.PathLike object''))))"

text \<open>
  One test \<open>proj_data[a] == proj_data[b] != ""\<close>. The marks are strings whenever they
  come from the metadata or the defaults, where \<open>==\<close> is equality of the strings.
\<close>

definition marks_clash :: "config \<Rightarrow> string \<Rightarrow> string \<Rightarrow> error + bool" where
  "marks_clash proj_data a b =
     and_then (item proj_data a)
       (\<lambda>x. and_then (item proj_data b)
          (\<lambda>y. Inr (x = y \<and> y \<noteq> PStr [])))"

text \<open>The six tests, in the order of the source.\<close>

definition mark_pairs :: "(string \<times> string) list" where
  "mark_pairs =
     [(''docmark'', ''predocmark''),
      (''docmark'', ''docmark_alt''),
      (''docmark'', ''predocmark_alt''),
      (''docmark_alt'', ''predocmark''),
      (''docmark_alt'', ''predocmark_alt''),
      (''predocmark'', ''predocmark_alt'')]"

fun first_clash :: "config \<Rightarrow> (string \<times> string) list \<Rightarrow> error + message option" where
  "first_clash proj_data [] = Inr None"
| "first_clash proj_data ((a, b) # rest) =
     and_then (marks_clash proj_data a b)
       (\<lambda>clash. if clash
          then Inr (Some [Lit (''Error: '' @ a @ '' and '' @ b @ '' are the same.'')])
          else first_clash proj_data rest)"

definition check_docmarks :: "config \<Rightarrow> error + message option" where
  "check_docmarks proj_data = first_clash proj_data mark_pairs"

section \<open>The preprocessor probe\<close>

text \<open>The truth value of a Python object in a condition.\<close>

fun truthy :: "pyval \<Rightarrow> bool" where
  "truthy PNone = False"
| "truthy (PBool b) = b"
| "truthy (PInt n) = (n \<noteq> 0)"
| "truthy (PStr s) = (s \<noteq> [])"
| "truthy (PList xs) = (xs \<noteq> [])"
| "truthy (PTuple a b) = True"
| "truthy (PDict kvs) = (kvs \<noteq> [])"

definition default_preprocessor :: "string list" where
  "default_preprocessor = [''cpp'', ''-traditional-cpp'', ''-E'', ''-D__GFORTRAN__'']"

text \<open>The command to probe: the configured one split on whitespace, or the default.\<close>

definition preprocessor_command :: "config \<Rightarrow> error + string list" where
  "preprocessor_command proj_data =
     and_then (item proj_data ''preprocessor'')
       (\<lambda>v. if truthy v then
               (case v of
                  PStr s \<Rightarrow> Inr (py_split s)
                | _ \<Rightarrow> Inl (AttributeError ''split''))
             else Inr default_preprocessor)"

text \<open>The four lines printed when the preprocessor cannot be started.\<close>

definition probe_warning :: "string list \<Rightarrow> string \<Rightarrow> message list" where
  "probe_warning preprocessor ex =
     [[Lit ''Warning: Testing preprocessor failed''],
      [Lit ''  Preprocessor command: '', Repr preprocessor],
      [Lit ''  Exception: '', Str ex],
      [Lit ''  -> Preprocessing turned off'']]"

text \<open>
  The probe. The spawned process reads nothing and its exit status is not looked at;
  only \<open>OSError\<close> is caught.
\<close>

definition probe_preprocessor ::
  "environment \<Rightarrow> config \<Rightarrow> error + config \<times> message list" where
  "probe_preprocessor env proj_data =
     and_then (item proj_data ''preprocess'')
       (\<lambda>v. if truthy v then
               and_then (preprocessor_command proj_data)
                 (\<lambda>preprocessor. case env_popen env preprocessor of
                    OSError ex \<Rightarrow>
                      Inr (proj_data(''preprocess'' \<mapsto> PStr ''false''),
                           probe_warning preprocessor ex)
                  | OtherException ex \<Rightarrow> Inl (Uncaught ex)
                  | Exited status \<Rightarrow>
                      Inr (proj_data(''preprocess'' \<mapsto> PStr ''true'',
                                     ''preprocessor'' \<mapsto> PList preprocessor), []))
             else Inr (proj_data, []))"

section \<open>Licenses\<close>

definition LICENSES :: "(string \<times> string) list" where
  \<open>LICENSES =
     [(''by'',
       ''<a rel="license" href="http://creativecommons.org/licenses/by/4.0/"><img alt="Creative Commons License" style="border-width:0" src="https://i.creativecommons.org/l/by/4.0/80x15.png" /></a>''),
      (''by-nd'',
       ''<a rel="license" href="http://creativecommons.org/licenses/by-nd/4.0/"><img alt="Creative Commons License" style="border-width:0" src="https://i.creativecommons.org/l/by-nd/4.0/80x15.png" /></a>''),
      (''by-sa'',
       ''<a rel="license" href="http://creativecommons.org/licenses/by-sa/4.0/"><img alt="Creative Commons License" style="border-width:0" src="https://i.creativecommons.org/l/by-sa/4.0/80x15.png" /></a>''),
      (''by-nc'',
       ''<a rel="license" href="http://creativecommons.org/licenses/by-nc/4.0/"><img alt="Creative Commons License" style="border-width:0" src="https://i.creativecommons.org/l/by-nc/4.0/80x15.png" /></a>''),
      (''by-nc-nd'',
       ''<a rel="license" href="http://creativecommons.org/licenses/by-nc-nd/4.0/"><img alt="Creative Commons License" style="border-width:0" src="https://i.creativecommons.org/l/by-nc-nd/4.0/80x15.png" /></a>''),
      (''by-nc-sa'',
       ''<a rel="license" href="http://creativecommons.org/licenses/by-nc-sa/4.0/"><img alt="Creative Commons License" style="border-width:0" src="https://i.creativecommons.org/l/by-nc-sa/4.0/80x15.png" /></a>''),
      (''gfdl'',
       ''<a rel="license" href="http://www.gnu.org/licenses/old-licenses/fdl-1.2.en.html">GNU Free Documentation License</a>''),
      (''opl'',
       ''<a rel="license" href="http://opencontent.org/openpub/">Open Publication License</a>''),
      (''pdl'',
       ''<a rel="license" href="http://www.openoffice.org/licenses/PDL.html">Public Documentation License</a>''),
      (''bsd'',
       ''<a rel="license" href="http://www.freebsd.org/copyright/freebsd-doc-license.html">FreeBSD Documentation License</a>''),
      (''isc'',
       ''<a rel="license" href="https://opensource.org/licenses/ISC">ISC (Internet Systems Consortium) License</a>''),
      (''mit'',
       ''<a rel="license" href="https://opensource.org/licenses/MIT">MIT</a>''),
      ('''',
       '''')]\<close>

text \<open>The notice for a license that the table does not have.\<close>

definition license_notice :: "string \<Rightarrow> string \<Rightarrow> message" where
  \<open>license_notice key s =
     [Lit (''Notice: '' @ key @ '' "''), Str s,
      Lit ''" is not a recognized value, using the value as a custom license value.'']\<close>

text \<open>
  \<open>proj_data[key] = LICENSES[proj_data[key].lower()]\<close> inside \<open>try\<close>, with the notice of
  the \<open>except KeyError\<close> clause.
\<close>

definition resolve_license :: "string \<Rightarrow> config \<Rightarrow> error + config \<times> message list" where
  \<open>resolve_license key proj_data =
     (case proj_data key of
        None \<Rightarrow> Inl (KeyError key)
      | Some (PStr s) \<Rightarrow>
          (case map_of LICENSES (py_lower s) of
             Some markup \<Rightarrow> Inr (proj_data(key \<mapsto> PStr markup), [])
           | None \<Rightarrow>
               Inr (proj_data, [license_notice key s]))
      | Some _ \<Rightarrow> Inl (AttributeError ''lower''))\<close>

section \<open>The whole of \<open>initialize\<close>\<close>

text \<open>
  The run of \<open>initialize\<close> from the merge loop to its \<open>return\<close>: either an exception or
  \<open>sys.exit\<close> ends it, or the configuration is returned; both come with the lines
  printed so far. Argument parsing and the Markdown conversion happen before and give
  \<open>args\<close> and \<open>meta\<close>; the Gitter snippet changes the document text only and is left out.
\<close>

datatype outcome = Raised error "message list" | Returned config "message list"

text \<open>The part before the checks: merge, path resolution, derived fields.\<close>

definition prepare ::
  "environment \<Rightarrow> config \<Rightarrow> (string \<rightharpoonup> string list) \<Rightarrow> error + config" where
  "prepare env args meta =
     and_then (merge_loop (env_str_to_bool env) args
                 (defaults (env_year env) (env_ncpus env)) (of_meta meta))
       (\<lambda>proj_data. and_then (resolve_paths env proj_data) (derive_fields env))"

text \<open>The part after it: the two checks, the preprocessor probe and the licenses.\<close>

definition check_and_finish :: "environment \<Rightarrow> config \<Rightarrow> outcome" where
  "check_and_finish env proj_data =
     (case check_src_dirs env proj_data of
        Inl e \<Rightarrow> Raised e []
      | Inr (Some m) \<Rightarrow> Raised (SystemExit 1) [m]
      | Inr None \<Rightarrow>
          (case check_docmarks proj_data of
             Inl e \<Rightarrow> Raised e []
           | Inr (Some m) \<Rightarrow> Raised (SystemExit 1) [m]
           | Inr None \<Rightarrow>
               (case probe_preprocessor env proj_data of
                  Inl e \<Rightarrow> Raised e []
                | Inr (proj_data, out1) \<Rightarrow>
                    (case resolve_license ''license'' proj_data of
                       Inl e \<Rightarrow> Raised e out1
                     | Inr (proj_data, out2) \<Rightarrow>
                         (case resolve_license ''doc_license'' proj_data of
                            Inl e \<Rightarrow> Raised e (out1 @ out2)
                          | Inr (proj_data, out3) \<Rightarrow>
                              Returned proj_data (out1 @ out2 @ out3))))))"

definition initialize ::
  "environment \<Rightarrow> config \<Rightarrow> (string \<rightharpoonup> string list) \<Rightarrow> outcome" where
  "initialize env args meta =
     (case prepare env args meta of
        Inl e \<Rightarrow> Raised e []
      | Inr proj_data \<Rightarrow> check_and_finish env proj_data)"

section \<open>A concrete environment\<close>

text \<open>
  Modelled from the spec: \<open>ford.utils.split_path\<close> is not part of the sources at hand.
  The spec says that a path is decomposed into its ordered sequence of path segments.
\<close>

definition split_path :: "string \<Rightarrow> string list" where
  "split_path path = filter (\<lambda>segment. segment \<noteq> []) (split_sep CHR ''/'' path)"

text \<open>
  A POSIX system with the project file in \<open>/home/user/project\<close>, no environment variable
  and no home directory to substitute (\<open>os.path\<close> then leaves the reference as it is),
  and a preprocessor that starts.
\<close>

definition example_env :: environment where
  "example_env =
     \<lparr> env_str_to_bool = str_to_bool,
       env_split_path = split_path,
       env_expandvars = (\<lambda>p. p),
       env_expanduser = (\<lambda>p. p),
       env_strftime = (\<lambda>fmt. ''2021-06-01T12:00:00.000000''),
       env_popen = (\<lambda>cmd. Exited 0),
       env_base_dir = ''/home/user/project'',
       env_year = 2021,
       env_ncpus = ''4'' \<rparr>"

text \<open>What a run raised, if anything, and what it printed.\<close>

fun raised :: "outcome \<Rightarrow> error option" where
  "raised (Raised e out) = Some e"
| "raised (Returned proj_data out) = None"

fun printed :: "outcome \<Rightarrow> message list" where
  "printed (Raised e out) = out"
| "printed (Returned proj_data out) = out"

fun returned :: "outcome \<Rightarrow> string \<Rightarrow> pyval option" where
  "returned (Raised e out) key = None"
| "returned (Returned proj_data out) key = proj_data key"

text \<open>The same system without a runnable preprocessor.\<close>

definition no_cpp_env :: environment where
  "no_cpp_env = example_env \<lparr> env_popen := (\<lambda>cmd. OSError ''No such file or directory'') \<rparr>"

section \<open>The precedence of the spec\<close>

text \<open>
  The value the spec gives an option of the schema: the command-line value when one was
  supplied, otherwise the coerced metadata value when the metadata has the key, otherwise
  the default. Coercion goes by the kind of the default: a boolean through
  \<open>convert_to_bool\<close>, a list as it is, anything else joined with newlines.
\<close>

definition merged_value ::
  "(string \<Rightarrow> bool option) \<Rightarrow> config \<Rightarrow> (string \<rightharpoonup> string list) \<Rightarrow> string \<Rightarrow> pyval \<Rightarrow> pyval option" where
  "merged_value to_bool args meta name dflt =
     (case supplied args name of
        Some v \<Rightarrow> Some v
      | None \<Rightarrow>
          (case meta name of
             None \<Rightarrow> Some dflt
           | Some xs \<Rightarrow>
               (if is_bool dflt then
                  (case convert_to_bool to_bool name xs of
                     Inl e \<Rightarrow> None
                   | Inr b \<Rightarrow> Some (PBool b))
                else if is_list dflt then Some (PList xs)
                else Some (PStr (py_join [CHR 0x0A] xs)))))"

text \<open>A run with nothing on the command line, and a project file without metadata.\<close>

definition no_args :: config where
  "no_args = (\<lambda>option. None)"

definition no_meta :: "string \<rightharpoonup> string list" where
  "no_meta = (\<lambda>key. None)"

text \<open>
  Example inputs: \<open>--no-search\<close> on the command line and a project file with a few
  metadata lines.
\<close>

definition example_args :: config where
  "example_args = [''search'' \<mapsto> PBool False, ''warn'' \<mapsto> PNone]"

definition example_meta :: "string \<rightharpoonup> string list" where
  "example_meta =
     [''search'' \<mapsto> [''true''], ''warn'' \<mapsto> [''TRUE''], ''author'' \<mapsto> [''Ann'', ''Bob''],
      ''summary'' \<mapsto> [''One line''], ''exclude'' \<mapsto> [''a.f90'', ''b.f90'']]"

text \<open>Resolved configurations for the containment check, reduced to the two options it reads.\<close>

definition contained_config :: config where
  "contained_config =
     [''src_dir'' \<mapsto> PList [''/home/user/project/src'', ''/home/user/project/doc/examples''],
      ''output_dir'' \<mapsto> PStr ''/home/user/project/doc'']"

definition same_config :: config where
  "same_config =
     [''src_dir'' \<mapsto> PList [''/home/user/project/doc''],
      ''output_dir'' \<mapsto> PStr ''/home/user/project/doc'']"

definition sibling_config :: config where
  "sibling_config =
     [''src_dir'' \<mapsto> PList [''/home/user/project/src'', ''/home/user/project/docs''],
      ''output_dir'' \<mapsto> PStr ''/home/user/project/doc'']"

definition lib_config :: config where
  "lib_config =
     [''src_dir'' \<mapsto> PList [''/home/user/project/lib''],
      ''output_dir'' \<mapsto> PStr ''/home/user/project/lib/doc'']"

text \<open>Project files: the source directory above the output directory, and the reverse.\<close>

definition lib_meta :: "string \<rightharpoonup> string list" where
  "lib_meta = [''src_dir'' \<mapsto> [''./lib''], ''output_dir'' \<mapsto> [''./lib/doc'']]"

definition mirrored_meta :: "string \<rightharpoonup> string list" where
  "mirrored_meta = [''src_dir'' \<mapsto> [''./lib/doc''], ''output_dir'' \<mapsto> [''./lib'']]"

text \<open>Inputs for the extension step.\<close>

definition ext_config :: config where
  "ext_config = [''extensions'' \<mapsto> PList [''f90'', ''F''],
                 ''fpp_extensions'' \<mapsto> PList [''F90'', ''F'', ''FOR'']]"

definition repeated_meta :: "string \<rightharpoonup> string list" where
  "repeated_meta = [''extensions'' \<mapsto> [''f90''], ''fpp_extensions'' \<mapsto> [''F90'', ''F90'']]"

text \<open>
  Configurations that pass the containment check, for the mark check, the probe and the
  licenses, and a project file with two equal marks.
\<close>

definition marks_config :: "string \<Rightarrow> string \<Rightarrow> config" where
  "marks_config docmark predocmark =
     [''src_dir'' \<mapsto> PList [''/home/user/project/src''],
      ''output_dir'' \<mapsto> PStr ''/home/user/project/doc'',
      ''docmark'' \<mapsto> PStr docmark, ''docmark_alt'' \<mapsto> PStr ''*'',
      ''predocmark'' \<mapsto> PStr predocmark, ''predocmark_alt'' \<mapsto> PStr ''|'',
      ''preprocess'' \<mapsto> PBool False, ''preprocessor'' \<mapsto> PStr [],
      ''license'' \<mapsto> PStr [], ''doc_license'' \<mapsto> PStr []]"


definition license_config :: config where
  "license_config = [''license'' \<mapsto> PStr ''MIT'', ''doc_license'' \<mapsto> PStr ''proprietary'']"

definition clash_meta :: "string \<rightharpoonup> string list" where
  "clash_meta = [''docmark'' \<mapsto> [''!''], ''predocmark'' \<mapsto> [''!'']]"

text \<open>
  The shape of a component list that \<open>normpath\<close> leaves alone: no component is empty,
  \<open>.\<close> or holds a slash, every \<open>..\<close> stands at the front, and an absolute path has none.
\<close>

definition clean :: "bool \<Rightarrow> string list \<Rightarrow> bool" where
  "clean absolute comps \<longleftrightarrow>
     (\<forall>c\<in>set comps. c \<noteq> [] \<and> c \<noteq> ''.'' \<and> CHR ''/'' \<notin> set c) \<and>
     ''..'' \<notin> set (dropWhile (\<lambda>c. c = ''..'') comps) \<and>
     (absolute \<longrightarrow> ''..'' \<notin> set comps)"

section \<open>Boolean coercion: results\<close>

text \<open>
  On a value list that is not empty, \<open>convert_to_bool(name, option)\<close> raises a
  \<open>ValueError\<close> whose message names the option and the raw input (the whole list, or its
  single element) exactly when the list has more than one element or its single element
  is not a token the helper recognises; otherwise it returns the boolean the helper gives
  for that element. This holds for every helper that returns a boolean or raises
  \<open>ValueError\<close>.
\<close>

lemma convert_to_bool_result:
  assumes "option \<noteq> []"
  shows "if 1 < length option \<or> to_bool (hd option) = None
         then \<exists>m. convert_to_bool to_bool name option = Inl (ValueError m) \<and>
                  Str name \<in> set m \<and> (Repr option \<in> set m \<or> Str (hd option) \<in> set m)
         else \<exists>b. to_bool (hd option) = Some b \<and>
                  convert_to_bool to_bool name option = Inr b"
  using assms by (cases option) (auto simp: convert_to_bool_def split: option.splits)

lemma convert_to_bool_result_example:
  "(\<exists>m. convert_to_bool str_to_bool ''warn'' [''maybe''] = Inl (ValueError m) \<and>
        Str ''warn'' \<in> set m \<and> (Repr [''maybe''] \<in> set m \<or> Str ''maybe'' \<in> set m)) \<and>
   convert_to_bool str_to_bool ''warn'' [''True''] = Inr True"
proof -
  have a: "str_to_bool ''maybe'' = None" by code_simp
  have b: "str_to_bool ''True'' = Some True" by code_simp
  show ?thesis
    using convert_to_bool_result [of "[''maybe'']" str_to_bool "''warn''"]
      convert_to_bool_result [of "[''True'']" str_to_bool "''warn''"] a b
    by auto
qed


section \<open>The merge loop: results\<close>

lemma merge_option_other:
  "merge_option tb args (k, d) pd = Inr pd' \<Longrightarrow> k' \<noteq> k \<Longrightarrow> pd' k' = pd k'"
  by (auto simp: merge_option_def and_then_def split: option.splits sum.splits if_splits)

lemma merge_loop_other:
  "merge_loop tb args ds pd = Inr cfg \<Longrightarrow> k \<notin> fst ` set ds \<Longrightarrow> cfg k = pd k"
proof (induction ds arbitrary: pd)
  case Nil
  then show ?case by simp
next
  case (Cons entry ds)
  obtain k' d' where entry: "entry = (k', d')" by (cases entry)
  from Cons.prems obtain pd' where
    step: "merge_option tb args (k', d') pd = Inr pd'" and rest: "merge_loop tb args ds pd' = Inr cfg"
    by (auto simp: entry split: sum.splits)
  have "k \<noteq> k'" using Cons.prems(2) entry by auto
  then have "pd' k = pd k" using step by (rule merge_option_other[rotated])
  moreover have "cfg k = pd' k" using Cons.IH[OF rest] Cons.prems(2) by auto
  ultimately show ?case by simp
qed

lemma merge_option_value:
  "merge_option tb args (k, d) pd = Inr pd' \<Longrightarrow> pd k = map_option PList (meta k) \<Longrightarrow>
   pd' k = merged_value tb args meta k d \<and> pd' k \<noteq> None"
  by (auto simp: merge_option_def merged_value_def split: option.splits sum.splits if_splits)

lemma merge_loop_value:
  "distinct (map fst ds) \<Longrightarrow> merge_loop tb args ds pd = Inr cfg \<Longrightarrow> (k, d) \<in> set ds \<Longrightarrow>
   pd k = map_option PList (meta k) \<Longrightarrow>
   cfg k = merged_value tb args meta k d \<and> cfg k \<noteq> None"
proof (induction ds arbitrary: pd)
  case Nil
  then show ?case by simp
next
  case (Cons entry ds)
  obtain k' d' where entry: "entry = (k', d')" by (cases entry)
  from Cons.prems(2) obtain pd' where
    step: "merge_option tb args (k', d') pd = Inr pd'" and rest: "merge_loop tb args ds pd' = Inr cfg"
    by (auto simp: entry split: sum.splits)
  have dist: "k' \<notin> fst ` set ds" "distinct (map fst ds)" using Cons.prems(1) entry by auto
  show ?case
  proof (cases "(k, d) = (k', d')")
    case True
    then have kk: "k = k'" "d = d'" by auto
    have "pd k' = map_option PList (meta k')" using Cons.prems(4) kk by simp
    then have "pd' k' = merged_value tb args meta k' d' \<and> pd' k' \<noteq> None"
      by (rule merge_option_value[OF step])
    moreover have "cfg k' = pd' k'" using dist(1) by (rule merge_loop_other[OF rest])
    ultimately show ?thesis unfolding kk by metis
  next
    case False
    then have mem: "(k, d) \<in> set ds" using Cons.prems(3) entry by auto
    then have "k \<noteq> k'" using dist(1) by force
    then have "pd' k = pd k" using step by (rule merge_option_other[rotated])
    then have "pd' k = map_option PList (meta k)" using Cons.prems(4) by simp
    then show ?thesis by (rule Cons.IH[OF dist(2) rest mem])
  qed
qed

lemma defaults_distinct: "distinct (map fst (defaults year ncpus))"
  by (simp add: defaults_def)

text \<open>
  C5. When the merge loop completes, every option name of the defaults schema has a value
  in the configuration, and it is the one the precedence gives: the command-line value
  when one was supplied (whatever its truth value), otherwise the coerced metadata value
  when the metadata has the key, otherwise the schema default.
\<close>

theorem merge_precedence:
  assumes "merge_loop to_bool args (defaults year ncpus) (of_meta meta) = Inr cfg"
      and "(name, dflt) \<in> set (defaults year ncpus)"
  shows "cfg name = merged_value to_bool args meta name dflt \<and> cfg name \<noteq> None"
proof -
  have "of_meta meta name = map_option PList (meta name)" by (simp add: of_meta_def)
  then show ?thesis by (rule merge_loop_value[OF defaults_distinct assms])
qed


lemma merge_option_fails:
  "merge_option tb args (k, d) pd = Inl e \<Longrightarrow> pd k = map_option PList (meta k) \<Longrightarrow>
   \<exists>xs. is_bool d \<and> supplied args k = None \<and> meta k = Some xs \<and> convert_to_bool tb k xs = Inl e"
  by (auto simp: merge_option_def and_then_def split: option.splits sum.splits if_splits)

lemma merge_loop_fails:
  "distinct (map fst ds) \<Longrightarrow> merge_loop tb args ds pd = Inl e \<Longrightarrow>
   \<forall>k\<in>fst ` set ds. pd k = map_option PList (meta k) \<Longrightarrow>
   \<exists>k d xs. (k, d) \<in> set ds \<and> is_bool d \<and> supplied args k = None \<and> meta k = Some xs \<and>
      convert_to_bool tb k xs = Inl e"
proof (induction ds arbitrary: pd)
  case Nil
  then show ?case by simp
next
  case (Cons entry ds)
  obtain k' d' where entry: "entry = (k', d')" by (cases entry)
  show ?case
  proof (cases "merge_option tb args (k', d') pd")
    case (Inl e')
    then have "e' = e" using Cons.prems(2) entry by simp
    then show ?thesis using merge_option_fails[of tb args k' d' pd e meta] Inl Cons.prems(3) entry
      by fastforce
  next
    case (Inr pd')
    then have rest: "merge_loop tb args ds pd' = Inl e" using Cons.prems(2) entry by simp
    have dist: "k' \<notin> fst ` set ds" "distinct (map fst ds)" using Cons.prems(1) entry by auto
    have "\<forall>k\<in>fst ` set ds. pd' k = map_option PList (meta k)"
    proof
      fix k assume k: "k \<in> fst ` set ds"
      then have "k \<noteq> k'" using dist(1) by auto
      then have "pd' k = pd k" using Inr by (rule merge_option_other[rotated])
      then show "pd' k = map_option PList (meta k)" using Cons.prems(3) k by simp
    qed
    from Cons.IH[OF dist(2) rest this] show ?thesis by auto
  qed
qed

lemma example_merge_ok:
  "merge_loop str_to_bool example_args (defaults 2021 ''4'') (of_meta example_meta) =
     Inr (projr (merge_loop str_to_bool example_args (defaults 2021 ''4'') (of_meta example_meta)))"
proof -
  have "\<not> isl (merge_loop str_to_bool example_args (defaults 2021 ''4'') (of_meta example_meta))"
    by code_simp
  then show ?thesis by simp
qed

theorem merge_precedence_witness:
  "projr (merge_loop str_to_bool example_args (defaults 2021 ''4'') (of_meta example_meta)) ''search''
     = Some (PBool False) \<and>
   projr (merge_loop str_to_bool example_args (defaults 2021 ''4'') (of_meta example_meta)) ''warn''
     = Some (PBool True) \<and>
   projr (merge_loop str_to_bool example_args (defaults 2021 ''4'') (of_meta example_meta)) ''exclude''
     = Some (PList [''a.f90'', ''b.f90'']) \<and>
   projr (merge_loop str_to_bool example_args (defaults 2021 ''4'') (of_meta example_meta)) ''quiet''
     = Some (PBool False)"
proof -
  have m1: "(''search'', PBool True) \<in> set (defaults 2021 ''4'')"
   and m2: "(''warn'', PBool False) \<in> set (defaults 2021 ''4'')"
   and m3: "(''exclude'', PList []) \<in> set (defaults 2021 ''4'')"
   and m4: "(''quiet'', PBool False) \<in> set (defaults 2021 ''4'')"
    by (simp_all add: defaults_def)
  have v1: "merged_value str_to_bool example_args example_meta ''search'' (PBool True) = Some (PBool False)"
    by code_simp
  have v2: "merged_value str_to_bool example_args example_meta ''warn'' (PBool False) = Some (PBool True)"
    by code_simp
  have v3: "merged_value str_to_bool example_args example_meta ''exclude'' (PList []) = Some (PList [''a.f90'', ''b.f90''])"
    by code_simp
  have v4: "merged_value str_to_bool example_args example_meta ''quiet'' (PBool False) = Some (PBool False)"
    by code_simp
  show ?thesis
    using merge_precedence [OF example_merge_ok m1] merge_precedence [OF example_merge_ok m2]
      merge_precedence [OF example_merge_ok m3] merge_precedence [OF example_merge_ok m4]
    unfolding v1 v2 v3 v4 by blast
qed

section \<open>Scalar options from the metadata\<close>

lemma split_join:
  "xs \<noteq> [] \<Longrightarrow> \<forall>x\<in>set xs. sep \<notin> set x \<Longrightarrow> split_sep sep (py_join [sep] xs) = xs"
proof (induction "[sep]" xs rule: py_join.induct)
  case 1
  then show ?case by simp
next
  case (2 x)
  then show ?case by (induction x) (auto split: list.splits)
next
  case (3 x y ys)
  have "split_sep sep (x @ sep # rest) = x # split_sep sep rest" if "sep \<notin> set x" for rest
    using that by (induction x) (auto split: list.splits)
  then show ?case using 3 by simp
qed

text \<open>
  C8. For an option whose default is neither a boolean nor a list and whose value comes
  from the metadata, the metadata's strings are joined with newlines into one string:
  the pieces are in document order (splitting at the newlines gives the list back when
  no piece holds a newline), and a single value is that value itself.
\<close>

theorem scalar_join:
  assumes "merge_loop to_bool args (defaults year ncpus) (of_meta meta) = Inr cfg"
      and "(name, dflt) \<in> set (defaults year ncpus)"
      and "\<not> is_bool dflt" and "\<not> is_list dflt"
      and "supplied args name = None"
      and "meta name = Some xs"
  shows "cfg name = Some (PStr (py_join [CHR 0x0A] xs)) \<and>
         (xs \<noteq> [] \<and> (\<forall>x\<in>set xs. CHR 0x0A \<notin> set x) \<longrightarrow>
            split_sep (CHR 0x0A) (py_join [CHR 0x0A] xs) = xs) \<and>
         (\<forall>x. xs = [x] \<longrightarrow> cfg name = Some (PStr x))"
proof -
  have "of_meta meta name = map_option PList (meta name)" by (simp add: of_meta_def)
  then have "cfg name = merged_value to_bool args meta name dflt"
    using merge_loop_value[OF defaults_distinct assms(1,2)] by blast
  then have a: "cfg name = Some (PStr (py_join [CHR 0x0A] xs))"
    using assms(3-6) by (simp add: merged_value_def)
  then show ?thesis using split_join[of xs "CHR 0x0A"] by auto
qed

theorem scalar_join_witness:
  "projr (merge_loop str_to_bool example_args (defaults 2021 ''4'') (of_meta example_meta)) ''author''
     = Some (PStr (''Ann'' @ [CHR 0x0A] @ ''Bob'')) \<and>
   split_sep (CHR 0x0A) (py_join [CHR 0x0A] [''Ann'', ''Bob'']) = [''Ann'', ''Bob''] \<and>
   projr (merge_loop str_to_bool example_args (defaults 2021 ''4'') (of_meta example_meta)) ''summary''
     = Some (PStr ''One line'')"
proof -
  have m1: "(''author'', PNone) \<in> set (defaults 2021 ''4'')"
   and m2: "(''summary'', PNone) \<in> set (defaults 2021 ''4'')"
    by (simp_all add: defaults_def)
  have s1: "supplied example_args ''author'' = None" and s2: "supplied example_args ''summary'' = None"
    by (simp_all add: supplied_def example_args_def)
  have x1: "example_meta ''author'' = Some [''Ann'', ''Bob'']"
   and x2: "example_meta ''summary'' = Some [''One line'']"
    by (simp_all add: example_meta_def)
  show ?thesis
    using scalar_join [OF example_merge_ok m1 _ _ s1 x1] scalar_join [OF example_merge_ok m2 _ _ s2 x2]
    by simp
qed

section \<open>The containment check: results\<close>

lemma walk_out_path_prefix: "walk_out_path proj_path out_path \<longleftrightarrow> prefix out_path proj_path"
  by (induction out_path arbitrary: proj_path) (auto split: list.splits simp: prefix_Cons)

lemma first_contained_None:
  "first_contained split src_dirs out = None \<longleftrightarrow> (\<forall>p\<in>set src_dirs. \<not> prefix (split out) (split p))"
  by (induction src_dirs) (auto simp: walk_out_path_prefix)

lemma first_contained_Some:
  "first_contained split src_dirs out = Some p \<Longrightarrow> p \<in> set src_dirs \<and> prefix (split out) (split p)"
  by (induction src_dirs) (auto simp: walk_out_path_prefix split: if_splits)

lemma check_src_dirs_result:
  assumes "proj_data ''src_dir'' = Some (PList src_dirs)"
      and "proj_data ''output_dir'' = Some (PStr output_dir)"
  shows "check_src_dirs env proj_data =
           Inr (map_option (\<lambda>projdir. containment_error projdir output_dir)
                  (first_contained (env_split_path env) src_dirs output_dir))"
  using assms
  by (cases src_dirs)
     (auto simp: check_src_dirs_def item_def and_then_def split: option.splits)

text \<open>
  C2. The segments of a source directory continue those of the output directory exactly
  when the source directory is the output directory or lies below it. If some source
  directory does, the run prints the containment diagnostic for the first such directory
  and exits with status 1; in particular a source directory equal to the output directory
  does. If none does, whatever leading segments they share, the check passes.
\<close>

theorem src_dir_containment:
  assumes "proj_data ''src_dir'' = Some (PList src_dirs)"
      and "proj_data ''output_dir'' = Some (PStr output_dir)"
  shows "(if \<exists>projdir\<in>set src_dirs.
               prefix (env_split_path env output_dir) (env_split_path env projdir)
          then \<exists>projdir\<in>set src_dirs.
                 prefix (env_split_path env output_dir) (env_split_path env projdir) \<and>
                 check_and_finish env proj_data =
                   Raised (SystemExit 1) [containment_error projdir output_dir]
          else check_src_dirs env proj_data = Inr None) \<and>
         (output_dir \<in> set src_dirs \<longrightarrow> raised (check_and_finish env proj_data) = Some (SystemExit 1))"
proof (cases "first_contained (env_split_path env) src_dirs output_dir")
  case None
  then have "\<forall>p\<in>set src_dirs. \<not> prefix (env_split_path env output_dir) (env_split_path env p)"
    by (simp add: first_contained_None)
  moreover have "check_src_dirs env proj_data = Inr None"
    using check_src_dirs_result[OF assms, of env] None by simp
  ultimately show ?thesis by auto
next
  case (Some p)
  then have p: "p \<in> set src_dirs \<and> prefix (env_split_path env output_dir) (env_split_path env p)"
    by (rule first_contained_Some)
  have "check_src_dirs env proj_data = Inr (Some (containment_error p output_dir))"
    using check_src_dirs_result[OF assms, of env] Some by simp
  then have "check_and_finish env proj_data = Raised (SystemExit 1) [containment_error p output_dir]"
    by (simp add: check_and_finish_def)
  then show ?thesis using p by auto
qed

theorem src_dir_containment_witness:
  "check_and_finish example_env contained_config =
     Raised (SystemExit 1)
       [containment_error ''/home/user/project/doc/examples'' ''/home/user/project/doc''] \<and>
   raised (check_and_finish example_env same_config) = Some (SystemExit 1) \<and>
   check_src_dirs example_env sibling_config = Inr None"
proof -
  have s: "env_split_path example_env = split_path" by (simp add: example_env_def)
  have p1: "\<not> prefix (split_path ''/home/user/project/doc'') (split_path ''/home/user/project/src'')"
   and p2: "prefix (split_path ''/home/user/project/doc'') (split_path ''/home/user/project/doc/examples'')"
   and p3: "\<not> prefix (split_path ''/home/user/project/doc'') (split_path ''/home/user/project/docs'')"
    by code_simp+
  have c1: "contained_config ''src_dir'' = Some (PList [''/home/user/project/src'', ''/home/user/project/doc/examples''])"
   and c2: "contained_config ''output_dir'' = Some (PStr ''/home/user/project/doc'')"
    by (simp_all add: contained_config_def)
  have d1: "same_config ''src_dir'' = Some (PList [''/home/user/project/doc''])"
   and d2: "same_config ''output_dir'' = Some (PStr ''/home/user/project/doc'')"
    by (simp_all add: same_config_def)
  have e1: "sibling_config ''src_dir'' = Some (PList [''/home/user/project/src'', ''/home/user/project/docs''])"
   and e2: "sibling_config ''output_dir'' = Some (PStr ''/home/user/project/doc'')"
    by (simp_all add: sibling_config_def)
  show ?thesis
    using src_dir_containment [OF c1 c2, of example_env] src_dir_containment [OF d1 d2, of example_env]
      src_dir_containment [OF e1 e2, of example_env] p1 p2 p3
    by (simp add: s)
qed

text \<open>
  C1, as amended. When the segments of every source directory are used up before those of
  the output directory (the output directory lies below the source directory, as with
  \<open>src_dir: ./lib\<close> and \<open>output_dir: ./lib/doc\<close>), the walk stops at \<open>len(proj_path) == 0\<close>
  and the containment check passes.
\<close>

theorem output_below_source_passes:
  assumes "proj_data ''src_dir'' = Some (PList src_dirs)"
      and "proj_data ''output_dir'' = Some (PStr output_dir)"
      and "\<forall>projdir\<in>set src_dirs.
             strict_prefix (env_split_path env projdir) (env_split_path env output_dir)"
  shows "check_src_dirs env proj_data = Inr None"
proof -
  have "\<forall>p\<in>set src_dirs. \<not> prefix (env_split_path env output_dir) (env_split_path env p)"
    using assms(3) by (auto simp: strict_prefix_def)
  then have "first_contained (env_split_path env) src_dirs output_dir = None"
    by (simp add: first_contained_None)
  then show ?thesis using check_src_dirs_result[OF assms(1,2), of env] by simp
qed

theorem output_below_source_passes_witness:
  "resolve_path example_env ''./lib'' = ''/home/user/project/lib'' \<and>
   resolve_path example_env ''./lib/doc'' = ''/home/user/project/lib/doc'' \<and>
   check_src_dirs example_env lib_config = Inr None"
proof -
  have r: "resolve_path example_env ''./lib'' = ''/home/user/project/lib''"
          "resolve_path example_env ''./lib/doc'' = ''/home/user/project/lib/doc''"
    by code_simp+
  have p: "strict_prefix (env_split_path example_env ''/home/user/project/lib'')
             (env_split_path example_env ''/home/user/project/lib/doc'')"
    by code_simp
  have c1: "lib_config ''src_dir'' = Some (PList [''/home/user/project/lib''])"
   and c2: "lib_config ''output_dir'' = Some (PStr ''/home/user/project/lib/doc'')"
    by (simp_all add: lib_config_def)
  show ?thesis using output_below_source_passes [OF c1 c2, of example_env] p r by simp
qed

text \<open>
  C1 as stated fails: the run with \<open>src_dir: ./lib\<close> and \<open>output_dir: ./lib/doc\<close> in the
  metadata and nothing on the command line raises nothing and prints nothing.
\<close>

theorem lib_doc_counterexample:
  "raised (initialize example_env no_args lib_meta) = None \<and>
   printed (initialize example_env no_args lib_meta) = []"
  by code_simp

text \<open>The reverse configuration is the one that is refused.\<close>

lemma mirrored_run:
  "raised (initialize example_env no_args mirrored_meta) = Some (SystemExit 1) \<and>
   printed (initialize example_env no_args mirrored_meta) =
     [containment_error ''/home/user/project/lib/doc'' ''/home/user/project/lib'']"
  by code_simp

section \<open>The mark check: results\<close>

lemma check_docmarks_result:
  assumes "proj_data ''docmark'' = Some (PStr a)"
      and "proj_data ''docmark_alt'' = Some (PStr b)"
      and "proj_data ''predocmark'' = Some (PStr c)"
      and "proj_data ''predocmark_alt'' = Some (PStr d)"
  shows "check_docmarks proj_data =
     Inr (if a = c \<and> c \<noteq> [] then Some [Lit ''Error: docmark and predocmark are the same.'']
          else if a = b \<and> b \<noteq> [] then Some [Lit ''Error: docmark and docmark_alt are the same.'']
          else if a = d \<and> d \<noteq> [] then Some [Lit ''Error: docmark and predocmark_alt are the same.'']
          else if b = c \<and> c \<noteq> [] then Some [Lit ''Error: docmark_alt and predocmark are the same.'']
          else if b = d \<and> d \<noteq> [] then Some [Lit ''Error: docmark_alt and predocmark_alt are the same.'']
          else if c = d \<and> d \<noteq> [] then Some [Lit ''Error: predocmark and predocmark_alt are the same.'']
          else None)"
  using assms by (simp add: check_docmarks_def mark_pairs_def marks_clash_def item_def and_then_def)

lemma probe_no_exit: "probe_preprocessor env proj_data \<noteq> Inl (SystemExit n)"
  by (auto simp: probe_preprocessor_def preprocessor_command_def item_def and_then_def
      split: option.splits spawn_result.splits pyval.splits)

lemma license_no_exit: "resolve_license key proj_data \<noteq> Inl (SystemExit n)"
  by (auto simp: resolve_license_def split: option.splits pyval.splits)

lemma later_stages_no_exit:
  assumes "check_src_dirs env proj_data = Inr None" and "check_docmarks proj_data = Inr None"
  shows "raised (check_and_finish env proj_data) \<noteq> Some (SystemExit n)"
proof (cases "probe_preprocessor env proj_data")
  case (Inl e)
  then have "e \<noteq> SystemExit n" using probe_no_exit[of env proj_data n] by auto
  then show ?thesis using assms Inl by (simp add: check_and_finish_def)
next
  case (Inr r)
  obtain pd1 out1 where r: "r = (pd1, out1)" by (cases r)
  show ?thesis
  proof (cases "resolve_license ''license'' pd1")
    case (Inl e)
    then have "e \<noteq> SystemExit n" using license_no_exit[of "''license''" pd1 n] by auto
    then show ?thesis using assms Inr r Inl by (simp add: check_and_finish_def)
  next
    case Inr2: (Inr r2)
    obtain pd2 out2 where r2: "r2 = (pd2, out2)" by (cases r2)
    show ?thesis
    proof (cases "resolve_license ''doc_license'' pd2")
      case (Inl e)
      then have "e \<noteq> SystemExit n" using license_no_exit[of "''doc_license''" pd2 n] by auto
      then show ?thesis using assms Inr r Inr2 r2 Inl by (simp add: check_and_finish_def)
    next
      case Inr3: (Inr r3)
      obtain pd3 out3 where r3: "r3 = (pd3, out3)" by (cases r3)
      show ?thesis using assms Inr r Inr2 r2 Inr3 r3 by (simp add: check_and_finish_def)
    qed
  qed
qed

text \<open>
  C3. For a configuration that has passed the containment check and whose four marks are
  strings, the run exits with status 1 exactly when two of the four marks are equal and
  not empty: each of the six pairs counts, and an empty shared value never does. The line
  printed names the two options of a clashing pair.
\<close>

theorem docmark_clash:
  assumes "check_src_dirs env proj_data = Inr None"
      and "proj_data ''docmark'' = Some (PStr a)"
      and "proj_data ''docmark_alt'' = Some (PStr b)"
      and "proj_data ''predocmark'' = Some (PStr c)"
      and "proj_data ''predocmark_alt'' = Some (PStr d)"
  shows "(raised (check_and_finish env proj_data) = Some (SystemExit 1) \<longleftrightarrow>
            (a = b \<and> a \<noteq> []) \<or> (a = c \<and> a \<noteq> []) \<or> (a = d \<and> a \<noteq> []) \<or>
            (b = c \<and> b \<noteq> []) \<or> (b = d \<and> b \<noteq> []) \<or> (c = d \<and> c \<noteq> [])) \<and>
         (raised (check_and_finish env proj_data) = Some (SystemExit 1) \<longrightarrow>
            (\<exists>(x, y)\<in>set mark_pairs.
               proj_data x = proj_data y \<and> proj_data x \<noteq> Some (PStr []) \<and>
               printed (check_and_finish env proj_data) =
                 [[Lit (''Error: '' @ x @ '' and '' @ y @ '' are the same.'')]]))"
proof (cases "check_docmarks proj_data = Inr None")
  case True
  then have "raised (check_and_finish env proj_data) \<noteq> Some (SystemExit 1)"
    using assms(1) by (intro later_stages_no_exit)
  moreover have "\<not> ((a = b \<and> a \<noteq> []) \<or> (a = c \<and> a \<noteq> []) \<or> (a = d \<and> a \<noteq> []) \<or>
            (b = c \<and> b \<noteq> []) \<or> (b = d \<and> b \<noteq> []) \<or> (c = d \<and> c \<noteq> []))"
    using True check_docmarks_result[OF assms(2-5)] by (auto split: if_splits)
  ultimately show ?thesis by blast
next
  case False
  then obtain m where m: "check_docmarks proj_data = Inr (Some m)"
    using check_docmarks_result[OF assms(2-5)] by (auto split: if_splits)
  then have out: "check_and_finish env proj_data = Raised (SystemExit 1) [m]"
    using assms(1) by (simp add: check_and_finish_def)
  have clash: "(a = b \<and> a \<noteq> []) \<or> (a = c \<and> a \<noteq> []) \<or> (a = d \<and> a \<noteq> []) \<or>
            (b = c \<and> b \<noteq> []) \<or> (b = d \<and> b \<noteq> []) \<or> (c = d \<and> c \<noteq> [])"
    using m check_docmarks_result[OF assms(2-5)] by (auto split: if_splits)
  have "\<exists>(x, y)\<in>set mark_pairs.
               proj_data x = proj_data y \<and> proj_data x \<noteq> Some (PStr []) \<and>
               m = [Lit (''Error: '' @ x @ '' and '' @ y @ '' are the same.'')]"
    using m check_docmarks_result[OF assms(2-5)] assms(2-5)
    by (auto simp: mark_pairs_def split: if_splits)
  then show ?thesis using out clash by auto
qed

theorem docmark_clash_witness:
  "raised (check_and_finish example_env (marks_config ''!'' ''!'')) = Some (SystemExit 1) \<and>
   (\<exists>(x, y)\<in>set mark_pairs.
      marks_config ''!'' ''!'' x = marks_config ''!'' ''!'' y \<and>
      marks_config ''!'' ''!'' x \<noteq> Some (PStr []) \<and>
      printed (check_and_finish example_env (marks_config ''!'' ''!'')) =
        [[Lit (''Error: '' @ x @ '' and '' @ y @ '' are the same.'')]]) \<and>
   raised (check_and_finish example_env (marks_config [] [])) \<noteq> Some (SystemExit 1)"
proof -
  have s: "check_src_dirs example_env (marks_config a c) = Inr None" for a c
    by (simp add: check_src_dirs_def marks_config_def item_def and_then_def example_env_def
          split_path_def)
  have m: "marks_config a c ''docmark'' = Some (PStr a)"
          "marks_config a c ''docmark_alt'' = Some (PStr ''*'')"
          "marks_config a c ''predocmark'' = Some (PStr c)"
          "marks_config a c ''predocmark_alt'' = Some (PStr ''|'')" for a c
    by (simp_all add: marks_config_def)
  show ?thesis
    using docmark_clash [OF s m, of "''!''" "''!''"] docmark_clash [OF s m, of "[]" "[]"]
    by simp
qed

text \<open>The run on a project file with \<open>docmark: !\<close> and \<open>predocmark: !\<close>.\<close>

lemma clash_run:
  "raised (initialize example_env no_args clash_meta) = Some (SystemExit 1) \<and>
   printed (initialize example_env no_args clash_meta) =
     [[Lit ''Error: docmark and predocmark are the same.'']]"
  by code_simp

section \<open>The extension lists: results\<close>

lemma count_filter_not_in:
  "count_list (filter (\<lambda>ext. ext \<notin> set exts) fpp) e = (if e \<in> set exts then 0 else count_list fpp e)"
  by (induction fpp) auto

text \<open>
  C10, as amended. After the step the extensions list is the original list followed by
  the entries of \<open>fpp_extensions\<close> that the original list does not hold, in their order and
  once for each time \<open>fpp_extensions\<close> lists them; so it holds every element of
  \<open>fpp_extensions\<close>, an extension that \<open>fpp_extensions\<close> lists once is appended once, and
  one the original list holds is not appended.
\<close>

theorem extensions_extended:
  assumes "proj_data ''extensions'' = Some (PList extensions)"
      and "proj_data ''fpp_extensions'' = Some (PList fpp_extensions)"
  shows "\<exists>appended.
           extend_extensions proj_data =
             Inr (proj_data(''extensions'' \<mapsto> PList (extensions @ appended))) \<and>
           set fpp_extensions \<subseteq> set (extensions @ appended) \<and>
           subseq appended fpp_extensions \<and>
           (\<forall>ext. count_list appended ext =
                    (if ext \<in> set extensions then 0 else count_list fpp_extensions ext))"
proof -
  let ?app = "filter (\<lambda>ext. ext \<notin> set extensions) fpp_extensions"
  have "extend_extensions proj_data = Inr (proj_data(''extensions'' \<mapsto> PList (extensions @ ?app)))"
    using assms by (simp add: extend_extensions_def item_def and_then_def add_fpp_extensions_def)
  moreover have "subseq ?app fpp_extensions" by simp
  moreover have "set fpp_extensions \<subseteq> set (extensions @ ?app)" by auto
  moreover have "\<forall>ext. count_list ?app ext =
      (if ext \<in> set extensions then 0 else count_list fpp_extensions ext)"
    by (simp add: count_filter_not_in)
  ultimately show ?thesis by blast
qed

theorem extensions_extended_witness:
  "\<exists>appended.
     extend_extensions ext_config =
       Inr (ext_config(''extensions'' \<mapsto> PList ([''f90'', ''F''] @ appended))) \<and>
     set [''F90'', ''F'', ''FOR''] \<subseteq> set ([''f90'', ''F''] @ appended) \<and>
     subseq appended [''F90'', ''F'', ''FOR''] \<and>
     count_list appended ''F90'' = 1 \<and> count_list appended ''F'' = 0"
proof -
  have c: "ext_config ''extensions'' = Some (PList [''f90'', ''F''])"
          "ext_config ''fpp_extensions'' = Some (PList [''F90'', ''F'', ''FOR''])"
    by (simp_all add: ext_config_def)
  from extensions_extended [OF c] obtain appended where
    a: "extend_extensions ext_config =
       Inr (ext_config(''extensions'' \<mapsto> PList ([''f90'', ''F''] @ appended)))"
     "set [''F90'', ''F'', ''FOR''] \<subseteq> set ([''f90'', ''F''] @ appended)"
     "subseq appended [''F90'', ''F'', ''FOR'']"
     "\<forall>ext. count_list appended ext =
                    (if ext \<in> set [''f90'', ''F''] then 0 else count_list [''F90'', ''F'', ''FOR''] ext)"
    by blast
  have "count_list appended ''F90'' = 1" "count_list appended ''F'' = 0"
    using a(4) by simp_all
  then show ?thesis using a(1-3) by blast
qed

text \<open>
  C10 as stated fails when \<open>fpp_extensions\<close> repeats an entry: the filter looks at the
  list as it was before the step, so \<open>F90\<close>, listed twice, is appended twice.
\<close>

theorem repeated_extension_counterexample:
  "returned (initialize example_env no_args repeated_meta) ''extensions'' =
     Some (PList [''f90'', ''F90'', ''F90''])"
  by code_simp

section \<open>Licenses: results\<close>

lemma no_license: "map_of LICENSES [] = Some []"
  by code_simp

lemma resolve_license_str:
  "proj_data key = Some (PStr s) \<Longrightarrow>
   resolve_license key proj_data =
     Inr (case map_of LICENSES (py_lower s) of
            Some markup \<Rightarrow> (proj_data(key \<mapsto> PStr markup), [])
          | None \<Rightarrow> (proj_data, [license_notice key s]))"
  by (simp add: resolve_license_def license_notice_def split: option.splits)

lemma resolve_license_other:
  "resolve_license key proj_data = Inr (proj_data', out) \<Longrightarrow> k \<noteq> key \<Longrightarrow> proj_data' k = proj_data k"
  by (auto simp: resolve_license_def split: option.splits pyval.splits)

text \<open>
  C7. For \<open>license\<close> and \<open>doc_license\<close>, each on its own: when the lower-cased value is a
  key of the license table the value becomes the table's markup and nothing is printed;
  otherwise the value stays as it is and one notice is printed. Neither step raises, and
  no other option changes. The table has the empty string as a key, with empty markup.
\<close>

theorem license_resolution:
  assumes "proj_data ''license'' = Some (PStr lic)"
      and "proj_data ''doc_license'' = Some (PStr dlic)"
  shows "\<exists>pd1 out1 pd2 out2.
           resolve_license ''license'' proj_data = Inr (pd1, out1) \<and>
           resolve_license ''doc_license'' pd1 = Inr (pd2, out2) \<and>
           pd2 ''license'' =
             Some (PStr (case map_of LICENSES (py_lower lic) of Some markup \<Rightarrow> markup | None \<Rightarrow> lic)) \<and>
           pd2 ''doc_license'' =
             Some (PStr (case map_of LICENSES (py_lower dlic) of Some markup \<Rightarrow> markup | None \<Rightarrow> dlic)) \<and>
           out1 = (case map_of LICENSES (py_lower lic) of
                     Some markup \<Rightarrow> [] | None \<Rightarrow> [license_notice ''license'' lic]) \<and>
           out2 = (case map_of LICENSES (py_lower dlic) of
                     Some markup \<Rightarrow> [] | None \<Rightarrow> [license_notice ''doc_license'' dlic]) \<and>
           (\<forall>k. k \<noteq> ''license'' \<and> k \<noteq> ''doc_license'' \<longrightarrow> pd2 k = proj_data k) \<and>
           map_of LICENSES [] = Some []"
proof -
  obtain pd1 out1 where 1: "resolve_license ''license'' proj_data = Inr (pd1, out1)"
    using resolve_license_str[of proj_data "''license''" lic] assms(1) by (cases "map_of LICENSES (py_lower lic)") auto
  have l1: "pd1 ''license'' =
             Some (PStr (case map_of LICENSES (py_lower lic) of Some markup \<Rightarrow> markup | None \<Rightarrow> lic))"
    and o1: "out1 = (case map_of LICENSES (py_lower lic) of
                     Some markup \<Rightarrow> [] | None \<Rightarrow> [license_notice ''license'' lic])"
    using 1 resolve_license_str[of proj_data "''license''" lic] assms(1) by (auto split: option.splits)
  have d1: "pd1 ''doc_license'' = Some (PStr dlic)"
    using resolve_license_other[OF 1, of "''doc_license''"] assms(2) by simp
  obtain pd2 out2 where 2: "resolve_license ''doc_license'' pd1 = Inr (pd2, out2)"
    using resolve_license_str[of pd1 "''doc_license''" dlic] d1 by (cases "map_of LICENSES (py_lower dlic)") auto
  have l2: "pd2 ''doc_license'' =
             Some (PStr (case map_of LICENSES (py_lower dlic) of Some markup \<Rightarrow> markup | None \<Rightarrow> dlic))"
    and o2: "out2 = (case map_of LICENSES (py_lower dlic) of
                     Some markup \<Rightarrow> [] | None \<Rightarrow> [license_notice ''doc_license'' dlic])"
    using 2 resolve_license_str[of pd1 "''doc_license''" dlic] d1 by (auto split: option.splits)
  have k2: "pd2 ''license'' = pd1 ''license''"
    using resolve_license_other[OF 2, of "''license''"] by simp
  have other: "\<forall>k. k \<noteq> ''license'' \<and> k \<noteq> ''doc_license'' \<longrightarrow> pd2 k = proj_data k"
    using resolve_license_other[OF 1] resolve_license_other[OF 2] by simp
  show ?thesis using 1 2 l1 l2 o1 o2 k2 other no_license by (intro exI conjI) simp_all
qed

theorem license_resolution_witness:
  \<open>\<exists>pd1 out1 pd2 out2.
     resolve_license ''license'' license_config = Inr (pd1, out1) \<and>
     resolve_license ''doc_license'' pd1 = Inr (pd2, out2) \<and>
     pd2 ''license'' = Some (PStr ''<a rel="license" href="https://opensource.org/licenses/MIT">MIT</a>'') \<and>
     pd2 ''doc_license'' = Some (PStr ''proprietary'') \<and>
     out1 = [] \<and> out2 = [license_notice ''doc_license'' ''proprietary'']\<close>
proof -
  have c: "license_config ''license'' = Some (PStr ''MIT'')"
          "license_config ''doc_license'' = Some (PStr ''proprietary'')"
    by (simp_all add: license_config_def)
  have m: \<open>map_of LICENSES (py_lower ''MIT'') =
             Some ''<a rel="license" href="https://opensource.org/licenses/MIT">MIT</a>''\<close>
          "map_of LICENSES (py_lower ''proprietary'') = None"
    by code_simp+
  show ?thesis using license_resolution [OF c] unfolding m by auto
qed

section \<open>The preprocessor probe: results\<close>




text \<open>The run with the defaults on a system without \<open>cpp\<close>.\<close>

lemma no_cpp_run:
  "raised (initialize no_cpp_env no_args no_meta) = None \<and>
   returned (initialize no_cpp_env no_args no_meta) ''preprocess'' = Some (PStr ''false'') \<and>
   printed (initialize no_cpp_env no_args no_meta) =
     probe_warning default_preprocessor ''No such file or directory''"
  by code_simp

section \<open>Path resolution: results\<close>

lemma split_sep_no_sep: "c \<in> set (split_sep sep s) \<Longrightarrow> sep \<notin> set c"
  by (induction s arbitrary: c) (auto split: if_splits list.splits)

lemma split_sep_append: "sep \<notin> set x \<Longrightarrow> split_sep sep (x @ sep # rest) = x # split_sep sep rest"
  by (induction x) (auto split: list.splits)

lemma split_sep_plain: "sep \<notin> set x \<Longrightarrow> split_sep sep x = [x]"
  by (induction x) (auto split: list.splits)

lemma set_dropWhile_butlast: "set (dropWhile P (butlast xs)) \<subseteq> set (dropWhile P xs)"
  by (induction xs) (auto dest: in_set_butlastD)

lemma dropWhile_last_all:
  "xs \<noteq> [] \<Longrightarrow> last xs \<notin> set (dropWhile P xs) \<Longrightarrow> dropWhile P xs = []"
  by (induction xs) (auto split: if_splits)

lemma norm_comps_clean:
  "clean ini new \<Longrightarrow> \<forall>c\<in>set comps. CHR ''/'' \<notin> set c \<Longrightarrow> clean ini (norm_comps ini new comps)"
proof (induction comps arbitrary: new)
  case Nil
  then show ?case by simp
next
  case (Cons c comps)
  have rest: "\<forall>c\<in>set comps. CHR ''/'' \<notin> set c" and c: "CHR ''/'' \<notin> set c"
    using Cons.prems(2) by auto
  consider (skip) "c = [] \<or> c = ''.''"
    | (name) "c \<noteq> []" "c \<noteq> ''.''" "c \<noteq> ''..''"
    | (up_keep) "c = ''..''" "(\<not> ini \<and> new = []) \<or> (new \<noteq> [] \<and> last new = ''..'')"
    | (up_pop) "c = ''..''" "\<not> ((\<not> ini \<and> new = []) \<or> (new \<noteq> [] \<and> last new = ''..''))" "new \<noteq> []"
    | (up_root) "c = ''..''" "\<not> ((\<not> ini \<and> new = []) \<or> (new \<noteq> [] \<and> last new = ''..''))" "new = []"
    by blast
  then show ?case
  proof cases
    case skip
    then show ?thesis using Cons.IH[OF Cons.prems(1) rest] by auto
  next
    case name
    have "clean ini (new @ [c])"
      using Cons.prems(1) name c unfolding clean_def
      by (auto simp: dropWhile_append dest: set_dropWhileD)
    then show ?thesis using Cons.IH[OF _ rest] name by simp
  next
    case up_keep
    have "clean ini (new @ [c])"
    proof (cases "new = []")
      case True
      then show ?thesis using up_keep Cons.prems(1) by (auto simp: clean_def)
    next
      case False
      then have l: "last new = ''..''" using up_keep by auto
      then have "last new \<notin> set (dropWhile (\<lambda>c. c = ''..'') new)"
        using Cons.prems(1) by (simp add: clean_def)
      then have all: "dropWhile (\<lambda>c. c = ''..'') new = []"
        using False by (rule dropWhile_last_all[rotated])
      have "''..'' \<in> set new" using False l last_in_set by metis
      then have "\<not> ini" using Cons.prems(1) by (auto simp: clean_def)
      then show ?thesis using Cons.prems(1) all up_keep(1) unfolding clean_def
        by (auto simp: dropWhile_append dropWhile_eq_Nil_conv)
    qed
    then show ?thesis using Cons.IH[OF _ rest] up_keep by simp
  next
    case up_pop
    have "clean ini (butlast new)"
      using Cons.prems(1) set_dropWhile_butlast[of "\<lambda>c. c = ''..''" new] unfolding clean_def
      by (auto dest: in_set_butlastD)
    then show ?thesis using Cons.IH[OF _ rest] up_pop by simp
  next
    case up_root
    then show ?thesis using Cons.IH[OF Cons.prems(1) rest] by simp
  qed
qed

lemma norm_comps_fixed:
  "\<forall>c\<in>set cs. c \<noteq> [] \<and> c \<noteq> ''.'' \<Longrightarrow>
   ''..'' \<notin> set (dropWhile (\<lambda>c. c = ''..'') cs) \<Longrightarrow>
   (''..'' \<in> set cs \<longrightarrow> \<not> ini \<and> (new = [] \<or> last new = ''..'')) \<Longrightarrow>
   norm_comps ini new cs = new @ cs"
proof (induction cs arbitrary: new)
  case Nil
  then show ?case by simp
next
  case (Cons c cs)
  show ?case
  proof (cases "c = ''..''")
    case True
    then have "norm_comps ini (new @ [c]) cs = (new @ [c]) @ cs"
      using Cons.prems by (intro Cons.IH) auto
    then show ?thesis using True Cons.prems by auto
  next
    case False
    then have "''..'' \<notin> set cs" using Cons.prems(2) by simp
    then have "norm_comps ini (new @ [c]) cs = (new @ [c]) @ cs"
      using Cons.prems by (intro Cons.IH) (auto dest: set_dropWhileD)
    then show ?thesis using False Cons.prems by auto
  qed
qed

lemma norm_comps_clean_id: "clean ini cs \<Longrightarrow> norm_comps ini [] cs = cs"
  using norm_comps_fixed[of cs ini "[]"] by (auto simp: clean_def)

lemma norm_comps_skip_empty: "norm_comps ini new (replicate n [] @ cs) = norm_comps ini new cs"
  by (induction n) auto

lemma py_join_hd:
  "xs \<noteq> [] \<Longrightarrow> hd xs \<noteq> [] \<Longrightarrow> py_join sep xs \<noteq> [] \<and> hd (py_join sep xs) = hd (hd xs)"
  by (induction sep xs rule: py_join.induct) auto

lemma initial_slashes_le: "initial_slashes p \<le> 2"
  by (simp add: initial_slashes_def)

lemma normpath_dot: "normpath ''.'' = ''.''"
  by (simp add: normpath_def initial_slashes_def)

lemma normpath_of_clean:
  assumes "clean (n \<noteq> 0) comps" and "n \<le> 2"
      and "replicate n CHR ''/'' @ py_join ''/'' comps \<noteq> []"
  shows "normpath (replicate n CHR ''/'' @ py_join ''/'' comps) =
           replicate n CHR ''/'' @ py_join ''/'' comps"
proof -
  let ?j = "py_join ''/'' comps"
  let ?r = "replicate n CHR ''/'' @ ?j"
  have elems: "\<forall>c\<in>set comps. c \<noteq> [] \<and> CHR ''/'' \<notin> set c"
    using assms(1) by (auto simp: clean_def)
  have j: "comps \<noteq> [] \<Longrightarrow> ?j \<noteq> [] \<and> hd ?j \<noteq> CHR ''/''"
  proof -
    assume ne: "comps \<noteq> []"
    then have "hd comps \<in> set comps" by simp
    then have h: "hd comps \<noteq> []" "CHR ''/'' \<notin> set (hd comps)" using elems by auto
    then have "hd (hd comps) \<noteq> CHR ''/''" by (cases "hd comps") auto
    then show ?thesis using py_join_hd[OF ne h(1), of "''/''"] by simp
  qed
  have j0: "comps = [] \<Longrightarrow> ?j = []" by simp
  have noslash: "\<not> prefix ''/'' ?j"
  proof (cases "comps = []")
    case True
    then show ?thesis by simp
  next
    case False
    then show ?thesis using j by (cases ?j) auto
  qed
  have n_cases: "n = 0 \<or> n = 1 \<or> n = 2" using assms(2) by arith
  have ini: "initial_slashes ?r = n"
    using n_cases noslash
    by (cases ?j) (auto simp: initial_slashes_def numeral_2_eq_2)
  have split_j: "split_sep CHR ''/'' ?j = (if comps = [] then [[]] else comps)"
    using split_join[of comps "CHR ''/''"] elems by auto
  have split_r: "split_sep CHR ''/'' ?r = replicate n [] @ split_sep CHR ''/'' ?j"
    by (induction n) auto
  have "norm_comps (n \<noteq> 0) [] (split_sep CHR ''/'' ?r) = comps"
    unfolding split_r norm_comps_skip_empty split_j
    using norm_comps_clean_id[OF assms(1)] by auto
  then show ?thesis
    using assms(3) ini by (simp add: normpath_def Let_def)
qed

lemma normpath_form:
  "\<exists>n comps. n = initial_slashes p \<and> clean (n \<noteq> 0) comps \<and>
     normpath p = (if replicate n CHR ''/'' @ py_join ''/'' comps = [] then ''.''
                   else replicate n CHR ''/'' @ py_join ''/'' comps)"
proof (cases "p = []")
  case True
  have "clean False []" by (simp add: clean_def)
  then show ?thesis using True by (auto simp: normpath_def initial_slashes_def intro!: exI[of _ "[]"])
next
  case False
  let ?n = "initial_slashes p"
  let ?comps = "norm_comps (?n \<noteq> 0) [] (split_sep CHR ''/'' p)"
  have "clean (?n \<noteq> 0) []" by (simp add: clean_def)
  then have "clean (?n \<noteq> 0) ?comps"
    by (rule norm_comps_clean) (auto dest: split_sep_no_sep)
  then show ?thesis using False by (auto simp: normpath_def Let_def intro!: exI[of _ ?comps])
qed

lemma normpath_idempotent: "normpath (normpath p) = normpath p"
proof -
  obtain n comps where f: "n = initial_slashes p" "clean (n \<noteq> 0) comps"
    "normpath p = (if replicate n CHR ''/'' @ py_join ''/'' comps = [] then ''.''
                   else replicate n CHR ''/'' @ py_join ''/'' comps)"
    using normpath_form by blast
  show ?thesis
  proof (cases "replicate n CHR ''/'' @ py_join ''/'' comps = []")
    case True
    then show ?thesis using f(3) normpath_dot by simp
  next
    case False
    have "n \<le> 2" using f(1) initial_slashes_le by simp
    then have "normpath (replicate n CHR ''/'' @ py_join ''/'' comps) =
               replicate n CHR ''/'' @ py_join ''/'' comps"
      using False by (intro normpath_of_clean[OF f(2)])
    moreover have "normpath p = replicate n CHR ''/'' @ py_join ''/'' comps"
      using f(3) False by argo
    ultimately show ?thesis by argo
  qed
qed

lemma normpath_absolute:
  assumes "prefix ''/'' p"
  shows "prefix ''/'' (normpath p)"
proof -
  have "p \<noteq> []" using assms by auto
  moreover have "initial_slashes p = Suc 0 \<or> initial_slashes p = Suc (Suc 0)"
    using assms by (simp add: initial_slashes_def numeral_2_eq_2)
  then obtain m where "initial_slashes p = Suc m" by blast
  ultimately show ?thesis by (simp add: normpath_def Let_def)
qed

lemma path_join_absolute: "prefix ''/'' b \<Longrightarrow> path_join a b = b"
  by (simp add: path_join_def)

lemma path_join_base_absolute: "prefix ''/'' a \<Longrightarrow> prefix ''/'' (path_join a b)"
  by (cases a) (auto simp: path_join_def)

lemma resolve_path_fixed:
  assumes "prefix ''/'' p" and "CHR ''$'' \<notin> set p"
  shows "resolve_path env p = normpath p"
proof -
  have "\<not> prefix ''~'' p" using assms(1) by (cases p) auto
  then show ?thesis using assms by (simp add: resolve_path_def expandvars_def expanduser_def path_join_absolute)
qed

text \<open>
  C9. A path that is absolute, normalized (it is the result of \<open>normpath\<close>) and without
  \<open>$\<close> (an absolute path does not start with \<open>~\<close>) is returned unchanged by path
  resolution: expansion leaves it alone, joining an absolute path to the base directory
  gives the path, and \<open>normpath\<close> is idempotent. So resolving it twice is resolving it once.
\<close>

theorem resolve_path_idempotent:
  assumes "p = normpath q" and "prefix ''/'' p" and "CHR ''$'' \<notin> set p"
  shows "resolve_path env p = p \<and> resolve_path env (resolve_path env p) = resolve_path env p"
proof -
  have "resolve_path env p = normpath p" using assms(2,3) by (rule resolve_path_fixed)
  also have "\<dots> = p" using assms(1) normpath_idempotent by simp
  finally show ?thesis by simp
qed

text \<open>
  The same for any path option: with an absolute base directory, what path resolution
  returns is resolved to itself, unless the environment put a \<open>$\<close> into it.
\<close>

lemma resolve_path_twice:
  assumes "prefix ''/'' (env_base_dir env)" and "CHR ''$'' \<notin> set (resolve_path env p)"
  shows "resolve_path env (resolve_path env p) = resolve_path env p"
proof -
  have "prefix ''/'' (resolve_path env p)"
    unfolding resolve_path_def using assms(1) by (intro normpath_absolute path_join_base_absolute)
  then have "resolve_path env (resolve_path env p) = normpath (resolve_path env p)"
    using assms(2) by (rule resolve_path_fixed)
  then show ?thesis by (simp add: resolve_path_def normpath_idempotent)
qed

theorem resolve_path_idempotent_witness:
  "resolve_path example_env ''/opt/ford/src'' = ''/opt/ford/src'' \<and>
   resolve_path example_env (resolve_path example_env ''/opt/ford/src'') =
     resolve_path example_env ''/opt/ford/src''"
proof -
  have a: "''/opt/ford/src'' = normpath ''/opt/./ford/lib/../src/''" by code_simp
  have b: "prefix ''/'' ''/opt/ford/src''" by simp
  have c: "CHR ''$'' \<notin> set ''/opt/ford/src''" by simp
  show ?thesis using resolve_path_idempotent [OF a b c, of example_env] by simp
qed

end
